theory Spec2Isabelle
  imports Main
begin

section \<open>Multipart copy of an S3 object: the model of copy-object-multipart.js\<close>

text \<open>
  JavaScript numbers that hold byte counts and offsets are modelled as \<open>int\<close> (the
  integers of the safe range, on which the double arithmetic of the source is exact).
  A string is the sequence of the bytes of the JavaScript string in UTF-8; a lone
  surrogate, which a JavaScript string may hold, is the three bytes of its code point
  (\<open>ED\<close>, then a byte from \<open>A0\<close> to \<open>BF\<close>, then one more), and a surrogate pair is the
  four bytes of the character it stands for. A parameter that may be \<open>undefined\<close> is an
  \<open>option\<close>. The module-level \<open>client\<close> is the one \<open>init\<close> has made.
\<close>

subsection \<open>Constants\<close>

definition COPY_PART_SIZE_MINIMUM_BYTES :: int where
  "COPY_PART_SIZE_MINIMUM_BYTES = 5242880"

definition DEFAULT_COPY_PART_SIZE_BYTES :: int where
  "DEFAULT_COPY_PART_SIZE_BYTES = 50000000"

definition DEFAULT_COPIED_OBJECT_PERMISSIONS :: string where
  "DEFAULT_COPIED_OBJECT_PERMISSIONS = ''private''"

subsection \<open>Numbers of JavaScript\<close>

text \<open>
  \<open>a % b\<close> truncates: the result has the sign of the dividend. The divisor is never
  zero where the source computes it (a zero part size is replaced by the default).
\<close>

definition js_rem :: "int \<Rightarrow> int \<Rightarrow> int" where
  "js_rem a b = sgn a * (\<bar>a\<bar> mod \<bar>b\<bar>)"

text \<open>\<open>Math.floor(a / b)\<close> on integers and a divisor other than zero is the floor
  division \<open>a div b\<close> of HOL.\<close>

definition math_floor_div :: "int \<Rightarrow> int \<Rightarrow> int" where
  "math_floor_div a b = a div b"

text \<open>The decimal digits a number is printed with when it is concatenated to a string
  (an integer below \<open>10^21\<close> in absolute value is printed without an exponent).\<close>

definition digit_char :: "int \<Rightarrow> char" where
  "digit_char d = char_of (48 + d)"

function decimal_digits :: "int \<Rightarrow> string" where
  "decimal_digits n =
     (if n < 10 then [digit_char n] else decimal_digits (n div 10) @ [digit_char (n mod 10)])"
  by pat_completeness auto
termination
  by (relation "measure nat") auto

declare decimal_digits.simps [simp del]

definition js_number_string :: "int \<Rightarrow> string" where
  "js_number_string i = (if i < 0 then CHR ''-'' # decimal_digits (- i) else decimal_digits i)"

subsection \<open>The partition planner\<close>

text \<open>A range is the string \<open>start + '-' + end\<close>, each number printed in decimal.\<close>

definition range_string :: "int \<Rightarrow> int \<Rightarrow> string" where
  "range_string first_byte last_byte =
     js_number_string first_byte @ ''-'' @ js_number_string last_byte"

text \<open>
  The \<open>for\<close> loop of \<open>calculatePartitionsRangeArray\<close>: it pushes one range for each
  full slice and returns the array with the final value of \<open>index\<close>, which the code
  after the loop reads.
\<close>

function partitions_loop :: "int \<Rightarrow> int \<Rightarrow> int \<Rightarrow> int \<Rightarrow> string list \<Rightarrow> string list \<times> int" where
  "partitions_loop copy_part_size numOfPartitions remainder index partitions =
     (if index < numOfPartitions then
        (let nextIndex = index + 1;
             partition =
               (if nextIndex = numOfPartitions \<and> remainder < COPY_PART_SIZE_MINIMUM_BYTES
                then range_string (index * copy_part_size)
                       (nextIndex * copy_part_size + remainder - 1)
                else range_string (index * copy_part_size) (nextIndex * copy_part_size - 1))
         in partitions_loop copy_part_size numOfPartitions remainder (index + 1)
              (partitions @ [partition]))
      else (partitions, index))"
  by pat_completeness auto
termination
  by (relation "measure (\<lambda>(c, n, r, i, ps). nat (n - i))") auto

declare partitions_loop.simps [simp del]

text \<open>\<open>copy_part_size_bytes || DEFAULT_COPY_PART_SIZE_BYTES\<close>: an absent or zero part
  size is replaced by the default.\<close>

definition effective_part_size :: "int option \<Rightarrow> int" where
  "effective_part_size copy_part_size_bytes =
     (case copy_part_size_bytes of
        None \<Rightarrow> DEFAULT_COPY_PART_SIZE_BYTES
      | Some v \<Rightarrow> if v = 0 then DEFAULT_COPY_PART_SIZE_BYTES else v)"

definition calculatePartitionsRangeArray :: "int \<Rightarrow> int option \<Rightarrow> string list" where
  "calculatePartitionsRangeArray object_size copy_part_size_bytes =
     (let copy_part_size = effective_part_size copy_part_size_bytes;
          numOfPartitions = math_floor_div object_size copy_part_size;
          remainder = js_rem object_size copy_part_size;
          (partitions, index) = partitions_loop copy_part_size numOfPartitions remainder 0 []
      in if remainder \<ge> COPY_PART_SIZE_MINIMUM_BYTES
         then partitions @ [range_string (index * copy_part_size)
                              (index * copy_part_size + remainder - 1)]
         else partitions)"

subsection \<open>Values of the optional settings\<close>

text \<open>
  The optional settings of a request are tested for truthiness before they are sent:
  \<open>undefined\<close> (here \<open>None\<close>), the empty string and the number zero are falsy, every
  object is truthy.
\<close>

datatype js_value = JSString string | JSNumber int | JSObject "(string \<times> string) list"

fun truthy :: "js_value option \<Rightarrow> bool" where
  "truthy None = False"
| "truthy (Some (JSString s)) = (s \<noteq> [])"
| "truthy (Some (JSNumber n)) = (n \<noteq> 0)"
| "truthy (Some (JSObject fields)) = True"

text \<open>\<open>x ? params.Field = x : null\<close>: the field is set only for a truthy \<open>x\<close>.\<close>

definition set_if_truthy :: "js_value option \<Rightarrow> js_value option" where
  "set_if_truthy x = (if truthy x then x else None)"

subsection \<open>\<open>encodeURIComponent\<close>\<close>

text \<open>
  \<open>encodeURIComponent\<close> throws a \<open>URIError\<close> when the string holds a lone surrogate:
  the result is \<open>None\<close>. Otherwise every byte but the unreserved characters
  \<open>A-Z a-z 0-9 - _ . ! ~ * ' ( )\<close> is written \<open>%XX\<close>.
\<close>

fun has_lone_surrogate :: "string \<Rightarrow> bool" where
  "has_lone_surrogate (a # b # rest) =
     ((of_char a = (237 :: nat) \<and> (160 :: nat) \<le> of_char b \<and> of_char b \<le> (191 :: nat))
      \<or> has_lone_surrogate (b # rest))"
| "has_lone_surrogate [a] = False"
| "has_lone_surrogate [] = False"

definition uri_unreserved :: "char \<Rightarrow> bool" where
  "uri_unreserved c =
     (c \<in> set (''ABCDEFGHIJKLMNOPQRSTUVWXYZabcdefghijklmnopqrstuvwxyz0123456789-_.!~*()'' @ [CHR 0x27]))"

definition hex_digit :: "nat \<Rightarrow> char" where
  "hex_digit d = ''0123456789ABCDEF'' ! d"

definition percent_encode :: "char \<Rightarrow> string" where
  "percent_encode c = [CHR ''%'', hex_digit (of_char c div 16), hex_digit (of_char c mod 16)]"

definition encodeURIComponent :: "string \<Rightarrow> string option" where
  "encodeURIComponent s =
     (if has_lone_surrogate s then None
      else Some (concat (map (\<lambda>c. if uri_unreserved c then [c] else percent_encode c) s)))"

subsection \<open>Requests, responses and the client\<close>

text \<open>The argument of \<open>copyObjectMultipart\<close>: the field \<open>opt_x\<close> is the key \<open>x\<close> of
  the object the source destructures. The second argument of the source,
  \<open>request_context\<close>, is passed on and never read, and is left out.\<close>

record copy_options =
  opt_source_bucket :: string
  opt_object_key :: string
  opt_destination_bucket :: string
  opt_copied_object_name :: string
  opt_object_size :: int
  opt_copy_part_size_bytes :: "int option"
  opt_copied_object_permissions :: "js_value option"
  opt_expiration_period :: "js_value option"
  opt_server_side_encryption :: "js_value option"
  opt_content_type :: "js_value option"
  opt_content_disposition :: "js_value option"
  opt_content_encoding :: "js_value option"
  opt_content_language :: "js_value option"
  opt_metadata :: "js_value option"
  opt_cache_control :: "js_value option"
  opt_storage_class :: "js_value option"

record object_params =
  Bucket :: string
  Key :: string

record create_multipart_upload_input = object_params +
  ACL :: js_value
  Expires :: "js_value option"
  ContentType :: "js_value option"
  ContentDisposition :: "js_value option"
  ContentEncoding :: "js_value option"
  ContentLanguage :: "js_value option"
  Metadata :: "js_value option"
  CacheControl :: "js_value option"
  ServerSideEncryption :: "js_value option"
  StorageClass :: "js_value option"

text \<open>The \<open>params\<close> of \<open>abortMultipartCopy\<close>, sent with the abort and with the
  list-parts command.\<close>

record upload_params = object_params +
  UploadId :: string

record upload_part_copy_input = upload_params +
  CopySource :: string
  CopySourceRange :: string
  PartNumber :: nat

record copy_part_result =
  ETag :: "string option"

record upload_part_copy_output =
  CopyPartResult :: "copy_part_result option"

record completed_part =
  ETag :: "string option"
  PartNumber :: nat

record multipart_upload =
  Parts :: "completed_part list"

record complete_multipart_upload_input = upload_params +
  MultipartUpload :: multipart_upload

text \<open>The response of list-parts; the parts it lists are opaque to the code, which
  reads the length of \<open>Parts\<close> only.\<close>

record 'p list_parts_output =
  Parts :: "'p list option"

text \<open>The commands sent with \<open>client.send\<close>, in the order they are issued.\<close>

datatype command =
    CreateMultipartUploadCommand create_multipart_upload_input
  | UploadPartCopyCommand upload_part_copy_input
  | AbortMultipartUploadCommand upload_params
  | ListPartsCommand upload_params
  | CompleteMultipartUploadCommand complete_multipart_upload_input

text \<open>
  The storage service: what \<open>client.send\<close> settles with for each kind of command,
  \<open>Inl\<close> a rejection and \<open>Inr\<close> the response. Of the response of
  \<open>CreateMultipartUploadCommand\<close> the code reads \<open>UploadId\<close> only, so that response
  is the upload id.
\<close>

record ('e, 'p, 'r) s3_client =
  createMultipartUpload :: "create_multipart_upload_input \<Rightarrow> 'e + string"
  uploadPartCopy :: "upload_part_copy_input \<Rightarrow> 'e + upload_part_copy_output"
  abortMultipartUpload :: "upload_params \<Rightarrow> 'e + unit"
  listParts :: "upload_params \<Rightarrow> 'e + 'p list_parts_output"
  completeMultipartUpload :: "complete_multipart_upload_input \<Rightarrow> 'e + 'r"

text \<open>What a promise of the module rejects with: a rejection of the client passed on,
  the \<open>TypeError\<close> of a property read on \<open>undefined\<close>, the \<open>URIError\<close> of
  \<open>encodeURIComponent\<close>, or an \<open>Error\<close> the code builds, with its message and its
  \<open>details\<close>.\<close>

datatype 'p error_details = ParamsDetails upload_params | ListingDetails "'p list_parts_output"

datatype ('e, 'p) js_error =
  Rejection 'e | TypeError | URIError | Error string "'p error_details"

subsection \<open>Joining promises\<close>

text \<open>
  \<open>Promise.all\<close> fulfils with the values in the order of the array when every promise
  fulfils, and rejects with the rejection that settles first otherwise. The order in
  which the promises settle is \<open>settle_order\<close>, a list of indices; a promise it does
  not name settles after those it names.
\<close>

fun first_rejection :: "nat list \<Rightarrow> ('e + 'a) list \<Rightarrow> 'e option" where
  "first_rejection [] promises = None"
| "first_rejection (i # settle_order) promises =
     (if i < length promises then
        (case promises ! i of
           Inl err \<Rightarrow> Some err
         | Inr v \<Rightarrow> first_rejection settle_order promises)
      else first_rejection settle_order promises)"

fun fulfilled_values :: "('e + 'a) list \<Rightarrow> 'a list" where
  "fulfilled_values [] = []"
| "fulfilled_values (Inr v # promises) = v # fulfilled_values promises"
| "fulfilled_values (Inl err # promises) = fulfilled_values promises"

definition Promise_all :: "nat list \<Rightarrow> ('e + 'a) list \<Rightarrow> 'e + 'a list" where
  "Promise_all settle_order promises =
     (case first_rejection (settle_order @ [0..<length promises]) promises of
        Some err \<Rightarrow> Inl err
      | None \<Rightarrow> Inr (fulfilled_values promises))"

subsection \<open>The operations of the module\<close>

text \<open>Each operation returns the commands it sent, in order, with its outcome.
  \<open>initiateParams\<close> and \<open>copyPartParams\<close> are the \<open>params\<close> objects that
  \<open>initiateMultipartCopy\<close> and \<open>copyPart\<close> build.\<close>

definition initiateParams ::
  "string \<Rightarrow> string \<Rightarrow> js_value option \<Rightarrow> js_value option \<Rightarrow> js_value option \<Rightarrow>
   js_value option \<Rightarrow> js_value option \<Rightarrow> js_value option \<Rightarrow> js_value option \<Rightarrow>
   js_value option \<Rightarrow> js_value option \<Rightarrow> js_value option \<Rightarrow> create_multipart_upload_input" where
  "initiateParams destination_bucket copied_object_name copied_object_permissions
     expiration_period server_side_encryption content_type content_disposition
     content_encoding content_language metadata cache_control storage_class =
     \<lparr>Bucket = destination_bucket,
      Key = copied_object_name,
      ACL = (case copied_object_permissions of
               Some v \<Rightarrow> if truthy (Some v) then v else JSString DEFAULT_COPIED_OBJECT_PERMISSIONS
             | None \<Rightarrow> JSString DEFAULT_COPIED_OBJECT_PERMISSIONS),
      Expires = set_if_truthy expiration_period,
      ContentType = set_if_truthy content_type,
      ContentDisposition = set_if_truthy content_disposition,
      ContentEncoding = set_if_truthy content_encoding,
      ContentLanguage = set_if_truthy content_language,
      Metadata = set_if_truthy metadata,
      CacheControl = set_if_truthy cache_control,
      ServerSideEncryption = set_if_truthy server_side_encryption,
      StorageClass = set_if_truthy storage_class\<rparr>"

definition initiateMultipartCopy ::
  "('e, 'p, 'r) s3_client \<Rightarrow> string \<Rightarrow> string \<Rightarrow> js_value option \<Rightarrow> js_value option \<Rightarrow>
   js_value option \<Rightarrow> js_value option \<Rightarrow> js_value option \<Rightarrow> js_value option \<Rightarrow>
   js_value option \<Rightarrow> js_value option \<Rightarrow> js_value option \<Rightarrow> js_value option \<Rightarrow>
   command list \<times> (('e, 'p) js_error + string)" where
  "initiateMultipartCopy client destination_bucket copied_object_name copied_object_permissions
     expiration_period server_side_encryption content_type content_disposition
     content_encoding content_language metadata cache_control storage_class =
     (let params = initiateParams destination_bucket copied_object_name
                     copied_object_permissions expiration_period server_side_encryption
                     content_type content_disposition content_encoding content_language
                     metadata cache_control storage_class
      in ([CreateMultipartUploadCommand params],
          (case createMultipartUpload client params of
             Inl err \<Rightarrow> Inl (Rejection err)
           | Inr upload_id \<Rightarrow> Inr upload_id)))"

definition copyPartParams ::
  "string \<Rightarrow> string \<Rightarrow> nat \<Rightarrow> string \<Rightarrow> string \<Rightarrow> string \<Rightarrow> string \<Rightarrow>
   upload_part_copy_input option" where
  "copyPartParams source_bucket destination_bucket part_number object_key partition_range
     copied_object_name upload_id =
     (case encodeURIComponent (source_bucket @ ''/'' @ object_key) of
        None \<Rightarrow> None
      | Some encodedSourceKey \<Rightarrow>
          Some \<lparr>Bucket = destination_bucket,
                Key = copied_object_name,
                UploadId = upload_id,
                CopySource = encodedSourceKey,
                CopySourceRange = ''bytes='' @ partition_range,
                PartNumber = part_number\<rparr>)"

text \<open>\<open>copyPart\<close> throws when \<open>encodeURIComponent\<close> does (\<open>None\<close>, nothing is
  sent); otherwise it sends its command at once and returns the promise: the command,
  and what the promise settles with.\<close>

definition copyPart ::
  "('e, 'p, 'r) s3_client \<Rightarrow> string \<Rightarrow> string \<Rightarrow> nat \<Rightarrow> string \<Rightarrow> string \<Rightarrow> string \<Rightarrow> string \<Rightarrow>
   (command \<times> ('e + upload_part_copy_output)) option" where
  "copyPart client source_bucket destination_bucket part_number object_key partition_range
     copied_object_name upload_id =
     (case copyPartParams source_bucket destination_bucket part_number object_key
             partition_range copied_object_name upload_id of
        None \<Rightarrow> None
      | Some params \<Rightarrow> Some (UploadPartCopyCommand params, uploadPartCopy client params))"

text \<open>
  \<open>abortMultipartCopy\<close>: the abort command, then (when it fulfilled) the list-parts
  command; a rejection of either is passed on by the \<open>catch\<close>, which skips the last
  \<open>then\<close>. That \<open>then\<close> reads \<open>parts_list.Parts.length\<close> and rejects in both of
  its branches.
\<close>

definition abortMultipartCopy ::
  "('e, 'p, 'r) s3_client \<Rightarrow> string \<Rightarrow> string \<Rightarrow> string \<Rightarrow> command list \<times> (('e, 'p) js_error + 'r)" where
  "abortMultipartCopy client destination_bucket copied_object_name upload_id =
     (let params = \<lparr>Bucket = destination_bucket, Key = copied_object_name, UploadId = upload_id\<rparr>
      in case abortMultipartUpload client params of
           Inl err \<Rightarrow> ([AbortMultipartUploadCommand params], Inl (Rejection err))
         | Inr ack \<Rightarrow>
             ([AbortMultipartUploadCommand params, ListPartsCommand params],
              (case listParts client params of
                 Inl err \<Rightarrow> Inl (Rejection err)
               | Inr parts_list \<Rightarrow>
                   (case list_parts_output.Parts parts_list of
                      None \<Rightarrow> Inl TypeError
                    | Some parts \<Rightarrow>
                        if length parts > 0
                        then Inl (Error ''Abort procedure passed but copy parts were not removed''
                                    (ListingDetails parts_list))
                        else Inl (Error ''multipart copy aborted'' (ParamsDetails params))))))"

definition completeMultipartCopy ::
  "('e, 'p, 'r) s3_client \<Rightarrow> string \<Rightarrow> completed_part list \<Rightarrow> string \<Rightarrow> string \<Rightarrow>
   command list \<times> (('e, 'p) js_error + 'r)" where
  "completeMultipartCopy client destination_bucket ETags_array copied_object_name upload_id =
     (let params = \<lparr>Bucket = destination_bucket,
                     Key = copied_object_name,
                     UploadId = upload_id,
                     MultipartUpload = \<lparr>multipart_upload.Parts = ETags_array\<rparr>\<rparr>
      in ([CompleteMultipartUploadCommand params],
          (case completeMultipartUpload client params of
             Inl err \<Rightarrow> Inl (Rejection err)
           | Inr response \<Rightarrow> Inr response)))"

text \<open>The \<open>forEach\<close> of \<open>prepareResultsForCopyCompletion\<close>, from \<open>index\<close> on.
  Reading \<open>ETag\<close> of an absent \<open>CopyPartResult\<close> throws.\<close>

fun prepare_results_from ::
  "nat \<Rightarrow> upload_part_copy_output list \<Rightarrow> completed_part list \<Rightarrow>
   ('e, 'p) js_error + completed_part list" where
  "prepare_results_from index [] resultArray = Inr resultArray"
| "prepare_results_from index (copy_part # rest) resultArray =
     (case CopyPartResult copy_part of
        None \<Rightarrow> Inl TypeError
      | Some result \<Rightarrow>
          prepare_results_from (index + 1) rest
            (resultArray @ [\<lparr>completed_part.ETag = copy_part_result.ETag result,
                              completed_part.PartNumber = index + 1\<rparr>]))"

definition prepareResultsForCopyCompletion ::
  "upload_part_copy_output list \<Rightarrow> ('e, 'p) js_error + completed_part list" where
  "prepareResultsForCopyCompletion copy_parts_results_array =
     prepare_results_from 0 copy_parts_results_array []"

text \<open>
  The \<open>forEach\<close> of \<open>copyObjectMultipart\<close> over the ranges that are left, each with
  its index: it pushes the promise of each part copy, and stops where \<open>copyPart\<close>
  throws. The result is the array, with the exception if there is one.
\<close>

fun push_part_copies ::
  "('e, 'p, 'r) s3_client \<Rightarrow> copy_options \<Rightarrow> string \<Rightarrow> (nat \<times> string) list \<Rightarrow>
   (command \<times> ('e + upload_part_copy_output)) list \<Rightarrow>
   (command \<times> ('e + upload_part_copy_output)) list \<times> ('e, 'p) js_error option" where
  "push_part_copies client options upload_id [] copyPartFunctionsArray =
     (copyPartFunctionsArray, None)"
| "push_part_copies client options upload_id ((index, partitionRange) # rest)
     copyPartFunctionsArray =
     (case copyPart client (opt_source_bucket options) (opt_destination_bucket options)
             (index + 1) (opt_object_key options) partitionRange
             (opt_copied_object_name options) upload_id of
        None \<Rightarrow> (copyPartFunctionsArray, Some URIError)
      | Some part_copy \<Rightarrow>
          push_part_copies client options upload_id rest (copyPartFunctionsArray @ [part_copy]))"

text \<open>
  \<open>copyObjectMultipart\<close>. The initiate call is awaited first; its rejection is the
  outcome. Then every part copy is sent (the \<open>forEach\<close>); an exception there is the
  outcome, since it is thrown before the chain is built. Then the promises are joined,
  and the chain \<open>.then(...).catch(...)\<close> runs: the \<open>catch\<close> follows the \<open>then\<close>, so
  it handles a rejected part copy, an exception of \<open>prepareResultsForCopyCompletion\<close>
  and a rejected complete call alike, and it does not read what it caught.
  \<open>abort_commands\<close> and \<open>abort_outcome\<close> name what \<open>abortMultipartCopy\<close> sends and
  returns; they are part of a run only on the paths where the \<open>catch\<close> is taken.
\<close>

definition copyObjectMultipart ::
  "('e, 'p, 'r) s3_client \<Rightarrow> nat list \<Rightarrow> copy_options \<Rightarrow> command list \<times> (('e, 'p) js_error + 'r)" where
  "copyObjectMultipart client settle_order options =
     (case initiateMultipartCopy client (opt_destination_bucket options) (opt_copied_object_name options)
             (opt_copied_object_permissions options) (opt_expiration_period options)
             (opt_server_side_encryption options) (opt_content_type options)
             (opt_content_disposition options) (opt_content_encoding options)
             (opt_content_language options) (opt_metadata options) (opt_cache_control options)
             (opt_storage_class options) of
        (initiate_commands, Inl err) \<Rightarrow> (initiate_commands, Inl err)
      | (initiate_commands, Inr upload_id) \<Rightarrow>
          (let partitionsRangeArray =
                 calculatePartitionsRangeArray (opt_object_size options) (opt_copy_part_size_bytes options);
               (copyPartFunctionsArray, exception) =
                 push_part_copies client options upload_id (enumerate 0 partitionsRangeArray) [];
               sent = initiate_commands @ map fst copyPartFunctionsArray;
               (abort_commands, abort_outcome) =
                 abortMultipartCopy client (opt_destination_bucket options)
                   (opt_copied_object_name options) upload_id
           in case exception of
                Some thrown \<Rightarrow> (sent, Inl thrown)
              | None \<Rightarrow>
                  (case Promise_all settle_order (map snd copyPartFunctionsArray) of
                     Inl err \<Rightarrow> (sent @ abort_commands, abort_outcome)
                   | Inr copy_results \<Rightarrow>
                       (case prepareResultsForCopyCompletion copy_results of
                          Inl (thrown :: ('e, 'p) js_error) \<Rightarrow> (sent @ abort_commands, abort_outcome)
                        | Inr copyResultsForCopyCompletion \<Rightarrow>
                            (case completeMultipartCopy client (opt_destination_bucket options)
                                    copyResultsForCopyCompletion (opt_copied_object_name options)
                                    upload_id of
                               (complete_commands, Inr response) \<Rightarrow>
                                 (sent @ complete_commands, Inr response)
                             | (complete_commands, Inl err) \<Rightarrow>
                                 (sent @ complete_commands @ abort_commands, abort_outcome))))))"

subsection \<open>Names for what a run sends\<close>

text \<open>The input of the initiate command that \<open>copyObjectMultipart\<close> builds from its
  options.\<close>

definition initiate_input :: "copy_options \<Rightarrow> create_multipart_upload_input" where
  "initiate_input options =
     initiateParams (opt_destination_bucket options) (opt_copied_object_name options)
       (opt_copied_object_permissions options) (opt_expiration_period options)
       (opt_server_side_encryption options) (opt_content_type options)
       (opt_content_disposition options) (opt_content_encoding options)
       (opt_content_language options) (opt_metadata options) (opt_cache_control options)
       (opt_storage_class options)"

text \<open>The inputs of the part copies a run sends, in the order of the ranges: one for
  each planned range, or none at all when \<open>copyPart\<close> throws (every call encodes the
  same key, so the first one throws).\<close>

definition part_copy_inputs :: "copy_options \<Rightarrow> string \<Rightarrow> upload_part_copy_input list" where
  "part_copy_inputs options upload_id =
     List.map_filter (\<lambda>(index, partitionRange).
            copyPartParams (opt_source_bucket options) (opt_destination_bucket options)
              (index + 1) (opt_object_key options) partitionRange
              (opt_copied_object_name options) upload_id)
         (enumerate 0
            (calculatePartitionsRangeArray (opt_object_size options) (opt_copy_part_size_bytes options)))"

text \<open>The \<open>params\<close> of the abort and list-parts commands of a run.\<close>

definition abort_input :: "copy_options \<Rightarrow> string \<Rightarrow> upload_params" where
  "abort_input options upload_id =
     \<lparr>Bucket = opt_destination_bucket options, Key = opt_copied_object_name options,
      UploadId = upload_id\<rparr>"

text \<open>The input of the complete command of a run that passes \<open>manifest\<close>.\<close>

definition complete_input :: "copy_options \<Rightarrow> string \<Rightarrow> completed_part list \<Rightarrow> complete_multipart_upload_input" where
  "complete_input options upload_id manifest =
     \<lparr>Bucket = opt_destination_bucket options, Key = opt_copied_object_name options,
      UploadId = upload_id, MultipartUpload = \<lparr>multipart_upload.Parts = manifest\<rparr>\<rparr>"

text \<open>The tag a part copy answered with, when it fulfilled with a \<open>CopyPartResult\<close>.\<close>

definition returned_etag :: "('e, 'p, 'r) s3_client \<Rightarrow> upload_part_copy_input \<Rightarrow> string option" where
  "returned_etag client input =
     (case uploadPartCopy client input of
        Inl err \<Rightarrow> None
      | Inr out \<Rightarrow> (case CopyPartResult out of None \<Rightarrow> None | Some result \<Rightarrow> copy_part_result.ETag result))"

text \<open>A part copy succeeds when it fulfils with a response that holds a
  \<open>CopyPartResult\<close>, as the response of the service to a copy does; it is rejected
  when its promise rejects.\<close>

definition copy_succeeds :: "('e, 'p, 'r) s3_client \<Rightarrow> upload_part_copy_input \<Rightarrow> bool" where
  "copy_succeeds client input =
     (case uploadPartCopy client input of
        Inl err \<Rightarrow> False
      | Inr out \<Rightarrow> (case CopyPartResult out of None \<Rightarrow> False | Some result \<Rightarrow> True))"

definition copy_rejected :: "('e, 'p, 'r) s3_client \<Rightarrow> upload_part_copy_input \<Rightarrow> bool" where
  "copy_rejected client input = isl (uploadPartCopy client input)"

text \<open>The manifests of the complete commands among the commands sent.\<close>

fun manifest_of :: "command \<Rightarrow> completed_part list option" where
  "manifest_of (CompleteMultipartUploadCommand params) =
     Some (multipart_upload.Parts (MultipartUpload params))"
| "manifest_of (CreateMultipartUploadCommand params) = None"
| "manifest_of (UploadPartCopyCommand params) = None"
| "manifest_of (AbortMultipartUploadCommand params) = None"
| "manifest_of (ListPartsCommand params) = None"

definition completion_manifests :: "command list \<Rightarrow> completed_part list list" where
  "completion_manifests commands = List.map_filter manifest_of commands"

text \<open>The manifest a run passes to the complete command when every part copy
  fulfils: for each part copy, in the order of the ranges, the tag it answered with and
  its position counted from one.\<close>

definition planned_manifest :: "('e, 'p, 'r) s3_client \<Rightarrow> copy_options \<Rightarrow> string \<Rightarrow> completed_part list" where
  "planned_manifest client options upload_id =
     map (\<lambda>(index, input). \<lparr>completed_part.ETag = returned_etag client input,
                               completed_part.PartNumber = index + 1\<rparr>)
         (enumerate 0 (part_copy_inputs options upload_id))"

subsection \<open>The planned ranges as numbers\<close>

text \<open>The range the loop pushes at \<open>index\<close>, as a pair of its first and last byte.\<close>

definition slice_bounds :: "int \<Rightarrow> int \<Rightarrow> int \<Rightarrow> int \<Rightarrow> int \<times> int" where
  "slice_bounds copy_part_size numOfPartitions remainder index =
     (index * copy_part_size,
      if index + 1 = numOfPartitions \<and> remainder < COPY_PART_SIZE_MINIMUM_BYTES
      then (index + 1) * copy_part_size + remainder - 1
      else (index + 1) * copy_part_size - 1)"

text \<open>The ranges of the planner as pairs: those of the loop, for the indices from zero
  to \<open>numOfPartitions - 1\<close>, and the trailing range.\<close>

definition planned_bounds :: "int \<Rightarrow> int option \<Rightarrow> (int \<times> int) list" where
  "planned_bounds object_size copy_part_size_bytes =
     (let copy_part_size = effective_part_size copy_part_size_bytes;
          numOfPartitions = math_floor_div object_size copy_part_size;
          remainder = js_rem object_size copy_part_size
      in map (slice_bounds copy_part_size numOfPartitions remainder) [0..numOfPartitions - 1] @
         (if remainder \<ge> COPY_PART_SIZE_MINIMUM_BYTES
          then [(max 0 numOfPartitions * copy_part_size,
                 max 0 numOfPartitions * copy_part_size + remainder - 1)]
          else []))"

text \<open>\<open>tiles first_byte ranges last_byte\<close>: the ranges are not empty, the first one
  starts at \<open>first_byte\<close>, each of the others starts at the byte after the end of the
  one before it, and the last one ends at \<open>last_byte\<close>.\<close>

fun tiles :: "int \<Rightarrow> (int \<times> int) list \<Rightarrow> int \<Rightarrow> bool" where
  "tiles first_byte [] last_byte = (first_byte = last_byte + 1)"
| "tiles first_byte ((a, b) # ranges) last_byte =
     (a = first_byte \<and> a \<le> b \<and> tiles (b + 1) ranges last_byte)"

subsection \<open>Example requests and clients\<close>

definition example_options :: "int \<Rightarrow> int option \<Rightarrow> copy_options" where
  "example_options bytes part_size =
     \<lparr>opt_source_bucket = ''source-bucket'',
      opt_object_key = ''videos/big file.mp4'',
      opt_destination_bucket = ''destination-bucket'',
      opt_copied_object_name = ''copy.mp4'',
      opt_object_size = bytes,
      opt_copy_part_size_bytes = part_size,
      opt_copied_object_permissions = None,
      opt_expiration_period = None,
      opt_server_side_encryption = None,
      opt_content_type = Some (JSString ''video/mp4''),
      opt_content_disposition = None,
      opt_content_encoding = None,
      opt_content_language = None,
      opt_metadata = None,
      opt_cache_control = None,
      opt_storage_class = None\<rparr>"

text \<open>A client that answers every initiate command with the upload id \<open>upload-1\<close>,
  a part copy by its part number, and the other commands with fixed answers.\<close>

definition scripted_client ::
  "(nat \<Rightarrow> string + upload_part_copy_output) \<Rightarrow> string + unit \<Rightarrow> string + nat list_parts_output \<Rightarrow>
   string + string \<Rightarrow> (string, nat, string) s3_client" where
  "scripted_client copy_answer abort_answer list_answer complete_answer =
     \<lparr>createMultipartUpload = (\<lambda>params. Inr ''upload-1''),
      uploadPartCopy = (\<lambda>params. copy_answer (upload_part_copy_input.PartNumber params)),
      abortMultipartUpload = (\<lambda>params. abort_answer),
      listParts = (\<lambda>params. list_answer),
      completeMultipartUpload = (\<lambda>params. complete_answer)\<rparr>"

definition copied :: "nat \<Rightarrow> string + upload_part_copy_output" where
  "copied part_number =
     Inr \<lparr>CopyPartResult =
            Some \<lparr>copy_part_result.ETag = Some (''etag-'' @ js_number_string (int part_number))\<rparr>\<rparr>"

definition second_part_rejected :: "string \<Rightarrow> nat \<Rightarrow> string + upload_part_copy_output" where
  "second_part_rejected err part_number = (if part_number = 2 then Inl err else copied part_number)"

section \<open>Properties\<close>

subsection \<open>Joining promises\<close>

lemma first_rejection_None:
  "first_rejection xs ps = None \<longleftrightarrow> (\<forall>i \<in> set xs. i < length ps \<longrightarrow> \<not> isl (ps ! i))"
  by (induction xs) (auto split: sum.splits simp: isl_def)

lemma fulfilled_values_all:
  "\<forall>p \<in> set ps. \<not> isl p \<Longrightarrow> fulfilled_values ps = map projr ps"
  by (induction ps rule: fulfilled_values.induct) auto

lemma Promise_all_fulfilled:
  assumes "\<forall>p \<in> set ps. \<not> isl p"
  shows "Promise_all order ps = Inr (map projr ps)"
proof -
  have "first_rejection (order @ [0..<length ps]) ps = None"
    using assms by (simp add: first_rejection_None)
  then show ?thesis using assms by (simp add: Promise_all_def fulfilled_values_all)
qed

lemma Promise_all_rejected:
  assumes "\<exists>p \<in> set ps. isl p"
  shows "\<exists>err. Promise_all order ps = Inl err"
proof -
  from assms obtain i where "i < length ps" "isl (ps ! i)"
    by (auto simp: in_set_conv_nth)
  then have "first_rejection (order @ [0..<length ps]) ps \<noteq> None"
    by (auto simp: first_rejection_None)
  then show ?thesis by (auto simp: Promise_all_def)
qed

subsection \<open>The paths of \<open>copyObjectMultipart\<close>\<close>

lemma enumerate_empty: "enumerate n xs = [] \<longleftrightarrow> xs = []"
  by (cases xs) simp_all

lemma push_part_copies_throws:
  assumes "encodeURIComponent (opt_source_bucket options @ ''/'' @ opt_object_key options) = None"
  shows "push_part_copies client options upload_id indexed acc =
           (acc, if indexed = [] then None else Some URIError)"
  using assms
  by (cases indexed) (auto simp: copyPart_def copyPartParams_def)

lemma push_part_copies_sends:
  assumes "encodeURIComponent (opt_source_bucket options @ ''/'' @ opt_object_key options) = Some key"
  shows "push_part_copies client options upload_id indexed acc =
           (acc @ map (\<lambda>input. (UploadPartCopyCommand input, uploadPartCopy client input))
                    (List.map_filter
                       (\<lambda>(index, partitionRange).
                          copyPartParams (opt_source_bucket options) (opt_destination_bucket options)
                            (index + 1) (opt_object_key options) partitionRange
                            (opt_copied_object_name options) upload_id)
                       indexed), None)"
  using assms
proof (induction indexed arbitrary: acc)
  case Nil
  then show ?case by (simp add: map_filter_simps)
next
  case (Cons p indexed)
  then show ?case
    by (cases p) (simp add: copyPart_def copyPartParams_def map_filter_simps)
qed

lemma part_copy_inputs_throws:
  assumes "encodeURIComponent (opt_source_bucket options @ ''/'' @ opt_object_key options) = None"
  shows "part_copy_inputs options upload_id = []"
  using assms
  by (simp add: part_copy_inputs_def copyPartParams_def List.map_filter_def split_beta)

lemma part_copy_inputs_sends:
  assumes "encodeURIComponent (opt_source_bucket options @ ''/'' @ opt_object_key options) = Some key"
  shows "part_copy_inputs options upload_id =
     map (\<lambda>(index, partitionRange).
            \<lparr>Bucket = opt_destination_bucket options,
             Key = opt_copied_object_name options,
             UploadId = upload_id,
             CopySource = key,
             CopySourceRange = ''bytes='' @ partitionRange,
             PartNumber = index + 1\<rparr>)
       (enumerate 0 (calculatePartitionsRangeArray (opt_object_size options)
                       (opt_copy_part_size_bytes options)))"
  using assms
  by (simp add: part_copy_inputs_def copyPartParams_def List.map_filter_def split_beta comp_def)

text \<open>What the \<open>forEach\<close> of a run does: it sends the part copies of
  \<open>part_copy_inputs\<close>, and it throws exactly when those are fewer than the ranges.\<close>

lemma forEach_result:
  "push_part_copies client options upload_id
     (enumerate 0 (calculatePartitionsRangeArray (opt_object_size options)
                     (opt_copy_part_size_bytes options))) [] =
     (map (\<lambda>input. (UploadPartCopyCommand input, uploadPartCopy client input))
        (part_copy_inputs options upload_id),
      if length (part_copy_inputs options upload_id) =
         length (calculatePartitionsRangeArray (opt_object_size options)
                   (opt_copy_part_size_bytes options))
      then None else Some URIError)"
proof (cases "encodeURIComponent (opt_source_bucket options @ ''/'' @ opt_object_key options)")
  case None
  then show ?thesis
    by (simp add: push_part_copies_throws part_copy_inputs_throws enumerate_empty)
next
  case (Some key)
  have "length (part_copy_inputs options upload_id) =
         length (calculatePartitionsRangeArray (opt_object_size options)
                   (opt_copy_part_size_bytes options))"
    by (simp add: part_copy_inputs_sends [OF Some])
  then show ?thesis
    by (simp add: push_part_copies_sends [OF Some] part_copy_inputs_def)
qed

lemma copyObjectMultipart_initiated:
  fixes client :: "('e, 'p, 'r) s3_client"
  assumes "createMultipartUpload client (initiate_input options) = Inr upload_id"
  shows "copyObjectMultipart client settle_order options =
    (let inputs = part_copy_inputs options upload_id;
         sent = CreateMultipartUploadCommand (initiate_input options) # map UploadPartCopyCommand inputs;
         aborted = abortMultipartCopy client (opt_destination_bucket options)
                     (opt_copied_object_name options) upload_id
     in if length inputs \<noteq>
           length (calculatePartitionsRangeArray (opt_object_size options)
                     (opt_copy_part_size_bytes options))
        then (sent, Inl URIError)
        else
        case Promise_all settle_order (map (uploadPartCopy client) inputs) of
          Inl err \<Rightarrow> (sent @ fst aborted, snd aborted)
        | Inr copy_results \<Rightarrow>
            (case (prepareResultsForCopyCompletion copy_results :: ('e, 'p) js_error + completed_part list) of
               Inl thrown \<Rightarrow> (sent @ fst aborted, snd aborted)
             | Inr manifest \<Rightarrow>
                 (case completeMultipartUpload client (complete_input options upload_id manifest) of
                    Inl err \<Rightarrow>
                      (sent @ CompleteMultipartUploadCommand (complete_input options upload_id manifest)
                         # fst aborted, snd aborted)
                  | Inr response \<Rightarrow>
                      (sent @ [CompleteMultipartUploadCommand (complete_input options upload_id manifest)],
                       Inr response))))"
proof -
  have init: "initiateMultipartCopy client (opt_destination_bucket options) (opt_copied_object_name options)
             (opt_copied_object_permissions options) (opt_expiration_period options)
             (opt_server_side_encryption options) (opt_content_type options)
             (opt_content_disposition options) (opt_content_encoding options)
             (opt_content_language options) (opt_metadata options) (opt_cache_control options)
             (opt_storage_class options)
        = ([CreateMultipartUploadCommand (initiate_input options)], Inr upload_id)"
    using assms by (simp add: initiateMultipartCopy_def initiate_input_def Let_def)
  have cmp: "completeMultipartCopy client (opt_destination_bucket options) m
               (opt_copied_object_name options) upload_id
        = ([CompleteMultipartUploadCommand (complete_input options upload_id m)],
           (case completeMultipartUpload client (complete_input options upload_id m) of
              Inl err \<Rightarrow> Inl (Rejection err) | Inr response \<Rightarrow> Inr response))" for m
    by (simp add: completeMultipartCopy_def complete_input_def Let_def)
  show ?thesis
    unfolding copyObjectMultipart_def
    apply (simp only: init prod.case sum.case Let_def forEach_result cmp)
    apply (simp add: case_prod_beta comp_def split: sum.splits)
    done
qed

lemma part_copy_inputs_all_or_none:
  "part_copy_inputs options upload_id = [] \<or>
   length (part_copy_inputs options upload_id) =
     length (calculatePartitionsRangeArray (opt_object_size options)
               (opt_copy_part_size_bytes options))"
proof (cases "encodeURIComponent (opt_source_bucket options @ ''/'' @ opt_object_key options)")
  case None
  then show ?thesis by (simp add: part_copy_inputs_throws)
next
  case (Some key)
  then show ?thesis by (simp add: part_copy_inputs_sends)
qed

lemma abort_commands:
  "fst (abortMultipartCopy client (opt_destination_bucket options) (opt_copied_object_name options) upload_id) =
     AbortMultipartUploadCommand (abort_input options upload_id)
     # (if isl (abortMultipartUpload client (abort_input options upload_id)) then []
        else [ListPartsCommand (abort_input options upload_id)])"
  by (simp add: abortMultipartCopy_def abort_input_def Let_def isl_def split: sum.splits)

lemma abort_outcome:
  "snd (abortMultipartCopy client (opt_destination_bucket options) (opt_copied_object_name options) upload_id) =
     (case abortMultipartUpload client (abort_input options upload_id) of
        Inl err \<Rightarrow> Inl (Rejection err)
      | Inr ack \<Rightarrow>
          (case listParts client (abort_input options upload_id) of
             Inl err \<Rightarrow> Inl (Rejection err)
           | Inr listing \<Rightarrow>
               (case list_parts_output.Parts listing of
                  None \<Rightarrow> Inl TypeError
                | Some [] \<Rightarrow> Inl (Error ''multipart copy aborted'' (ParamsDetails (abort_input options upload_id)))
                | Some (part # parts) \<Rightarrow>
                    Inl (Error ''Abort procedure passed but copy parts were not removed''
                           (ListingDetails listing)))))"
  by (simp add: abortMultipartCopy_def abort_input_def Let_def split: sum.splits option.splits list.splits)

lemma abort_rejects:
  "isl (snd (abortMultipartCopy client b k u))"
  by (simp add: abortMultipartCopy_def Let_def split: sum.splits option.splits)

lemma rejected_path:
  fixes client :: "('e, 'p, 'r) s3_client"
  assumes init: "createMultipartUpload client (initiate_input options) = Inr upload_id"
      and fail: "list_ex (copy_rejected client) (part_copy_inputs options upload_id)"
  shows "copyObjectMultipart client settle_order options =
     (CreateMultipartUploadCommand (initiate_input options)
        # map UploadPartCopyCommand (part_copy_inputs options upload_id)
        @ fst (abortMultipartCopy client (opt_destination_bucket options)
                 (opt_copied_object_name options) upload_id),
      snd (abortMultipartCopy client (opt_destination_bucket options)
                 (opt_copied_object_name options) upload_id))"
proof -
  have "part_copy_inputs options upload_id \<noteq> []"
    using fail by auto
  then have all_sent: "length (part_copy_inputs options upload_id) =
     length (calculatePartitionsRangeArray (opt_object_size options)
               (opt_copy_part_size_bytes options))"
    using part_copy_inputs_all_or_none [of options upload_id] by simp
  have "\<exists>p \<in> set (map (uploadPartCopy client) (part_copy_inputs options upload_id)). isl p"
    using fail by (auto simp: list_ex_iff copy_rejected_def)
  then obtain err where
    "Promise_all settle_order (map (uploadPartCopy client) (part_copy_inputs options upload_id)) = Inl err"
    using Promise_all_rejected by blast
  then show ?thesis
    by (simp add: copyObjectMultipart_initiated [OF init] Let_def all_sent)
qed

lemma copy_results_manifest:
  fixes client :: "('e, 'p, 'r) s3_client"
  assumes ok: "list_all (copy_succeeds client) inputs"
  shows "Promise_all settle_order (map (uploadPartCopy client) inputs)
           = Inr (map projr (map (uploadPartCopy client) inputs))"
    and "prepare_results_from index (map projr (map (uploadPartCopy client) inputs)) acc
           = Inr (acc @ map (\<lambda>(i, input). \<lparr>completed_part.ETag = returned_etag client input,
                               completed_part.PartNumber = i + 1\<rparr>) (enumerate index inputs))"
proof -
  have "\<forall>p \<in> set (map (uploadPartCopy client) inputs). \<not> isl p"
    using ok by (auto simp: list_all_iff copy_succeeds_def isl_def split: sum.splits)
  then show "Promise_all settle_order (map (uploadPartCopy client) inputs)
           = Inr (map projr (map (uploadPartCopy client) inputs))"
    by (rule Promise_all_fulfilled)
  show "prepare_results_from index (map projr (map (uploadPartCopy client) inputs)) acc
           = Inr (acc @ map (\<lambda>(i, input). \<lparr>completed_part.ETag = returned_etag client input,
                               completed_part.PartNumber = i + 1\<rparr>) (enumerate index inputs))"
    using ok
  proof (induction inputs arbitrary: index acc)
    case Nil
    then show ?case by simp
  next
    case (Cons input inputs)
    then show ?case
      by (auto simp: copy_succeeds_def returned_etag_def split: sum.splits option.splits)
  qed
qed

lemma fulfilled_path:
  fixes client :: "('e, 'p, 'r) s3_client"
  assumes init: "createMultipartUpload client (initiate_input options) = Inr upload_id"
      and all_sent: "length (part_copy_inputs options upload_id) =
                       length (calculatePartitionsRangeArray (opt_object_size options)
                                 (opt_copy_part_size_bytes options))"
      and ok: "list_all (copy_succeeds client) (part_copy_inputs options upload_id)"
  shows "copyObjectMultipart client settle_order options =
     (case completeMultipartUpload client
             (complete_input options upload_id (planned_manifest client options upload_id)) of
        Inl err \<Rightarrow>
          (CreateMultipartUploadCommand (initiate_input options)
             # map UploadPartCopyCommand (part_copy_inputs options upload_id)
             @ CompleteMultipartUploadCommand
                 (complete_input options upload_id (planned_manifest client options upload_id))
             # fst (abortMultipartCopy client (opt_destination_bucket options)
                      (opt_copied_object_name options) upload_id),
           snd (abortMultipartCopy client (opt_destination_bucket options)
                      (opt_copied_object_name options) upload_id))
      | Inr response \<Rightarrow>
          (CreateMultipartUploadCommand (initiate_input options)
             # map UploadPartCopyCommand (part_copy_inputs options upload_id)
             @ [CompleteMultipartUploadCommand
                 (complete_input options upload_id (planned_manifest client options upload_id))],
           Inr response))"
proof -
  have prep: "(prepareResultsForCopyCompletion
            (map projr (map (uploadPartCopy client) (part_copy_inputs options upload_id)))
          :: ('e, 'p) js_error + completed_part list)
        = Inr (planned_manifest client options upload_id)"
    using copy_results_manifest(2) [OF ok, of 0 "[]"]
    by (simp add: prepareResultsForCopyCompletion_def planned_manifest_def)
  show ?thesis
    by (simp add: copyObjectMultipart_initiated [OF init] Let_def all_sent
        copy_results_manifest(1) [OF ok] prep del: map_map split: sum.splits)
qed




lemma key_throws_path:
  fixes client :: "('e, 'p, 'r) s3_client"
  assumes init: "createMultipartUpload client (initiate_input options) = Inr upload_id"
      and thrown: "length (part_copy_inputs options upload_id) \<noteq>
                       length (calculatePartitionsRangeArray (opt_object_size options)
                                 (opt_copy_part_size_bytes options))"
  shows "copyObjectMultipart client settle_order options =
           ([CreateMultipartUploadCommand (initiate_input options)], Inl URIError)"
proof -
  have "part_copy_inputs options upload_id = []"
    using thrown part_copy_inputs_all_or_none [of options upload_id] by simp
  then show ?thesis
    using thrown by (simp add: copyObjectMultipart_initiated [OF init] Let_def)
qed

text \<open>An object key that holds a lone surrogate (\<open>U+D800\<close>): the initiate command is
  sent, \<open>copyPart\<close> throws, and the run rejects with the \<open>URIError\<close>; nothing is
  aborted.\<close>

lemma lone_surrogate_key_throws:
  "copyObjectMultipart
     (scripted_client copied (Inr ()) (Inr \<lparr>list_parts_output.Parts = Some []\<rparr>) (Inr ''done''))
     [] ((example_options 120000000 None)\<lparr>opt_object_key := [CHR 0xED, CHR 0xA0, CHR 0x80]\<rparr>) =
     ([CreateMultipartUploadCommand
         (initiate_input
            ((example_options 120000000 None)\<lparr>opt_object_key := [CHR 0xED, CHR 0xA0, CHR 0x80]\<rparr>))],
      Inl URIError)"
  by code_simp

subsection \<open>Part numbers and the manifest\<close>

lemma map_enumerate_fst:
  "map (\<lambda>p. f (fst p)) (enumerate n xs) = map f [n..<n + length xs]"
proof -
  have "map (\<lambda>p. f (fst p)) (enumerate n xs) = map f (map fst (enumerate n xs))"
    by (simp only: map_map comp_def)
  then show ?thesis by (simp only: map_fst_enumerate)
qed

lemma map_enumerate_snd:
  "map (\<lambda>p. g (snd p)) (enumerate n xs) = map g xs"
proof -
  have "map (\<lambda>p. g (snd p)) (enumerate n xs) = map g (map snd (enumerate n xs))"
    by (simp only: map_map comp_def)
  then show ?thesis by (simp only: map_snd_enumerate)
qed

lemma part_numbers_from_one:
  "map (\<lambda>p. Suc (fst p)) (enumerate 0 xs) = [1..<Suc (length xs)]"
proof -
  have "map (\<lambda>p. Suc (fst p)) (enumerate 0 xs) = map Suc [0..<0 + length xs]"
    by (rule map_enumerate_fst)
  also have "\<dots> = [1..<Suc (length xs)]"
    by (simp only: map_Suc_upt add_0 One_nat_def)
  finally show ?thesis .
qed

lemma planned_manifest_numbers:
  "map completed_part.PartNumber (planned_manifest client options upload_id) =
     [1..<Suc (length (part_copy_inputs options upload_id))]"
proof -
  have "map completed_part.PartNumber (planned_manifest client options upload_id) =
          map (\<lambda>p. Suc (fst p)) (enumerate 0 (part_copy_inputs options upload_id))"
    by (simp add: planned_manifest_def split_beta comp_def)
  then show ?thesis by (simp only: part_numbers_from_one)
qed

lemma planned_manifest_etags:
  "map completed_part.ETag (planned_manifest client options upload_id) =
     map (returned_etag client) (part_copy_inputs options upload_id)"
proof -
  have "map completed_part.ETag (planned_manifest client options upload_id) =
          map (\<lambda>p. returned_etag client (snd p)) (enumerate 0 (part_copy_inputs options upload_id))"
    by (simp add: planned_manifest_def split_beta comp_def)
  then show ?thesis by (simp only: map_enumerate_snd)
qed

lemma part_copy_inputs_numbers:
  "map upload_part_copy_input.PartNumber (part_copy_inputs options upload_id) =
     [1..<Suc (length (part_copy_inputs options upload_id))]"
proof (cases "encodeURIComponent (opt_source_bucket options @ ''/'' @ opt_object_key options)")
  case None
  then show ?thesis by (simp add: part_copy_inputs_throws)
next
  case (Some key)
  have "map upload_part_copy_input.PartNumber (part_copy_inputs options upload_id) =
          map (\<lambda>p. Suc (fst p))
            (enumerate 0 (calculatePartitionsRangeArray (opt_object_size options)
                         (opt_copy_part_size_bytes options)))"
    by (simp add: part_copy_inputs_sends [OF Some] split_beta comp_def)
  moreover have "length (part_copy_inputs options upload_id) =
          length (calculatePartitionsRangeArray (opt_object_size options)
                         (opt_copy_part_size_bytes options))"
    by (simp add: part_copy_inputs_sends [OF Some])
  ultimately show ?thesis by (simp only: part_numbers_from_one)
qed

lemma part_copy_inputs_ranges:
  assumes "length (part_copy_inputs options upload_id) =
             length (calculatePartitionsRangeArray (opt_object_size options)
                       (opt_copy_part_size_bytes options))"
  shows "map CopySourceRange (part_copy_inputs options upload_id) =
     map (\<lambda>partitionRange. ''bytes='' @ partitionRange)
       (calculatePartitionsRangeArray (opt_object_size options) (opt_copy_part_size_bytes options))"
proof (cases "encodeURIComponent (opt_source_bucket options @ ''/'' @ opt_object_key options)")
  case None
  then show ?thesis using assms by (simp add: part_copy_inputs_throws)
next
  case (Some key)
  have "map CopySourceRange (part_copy_inputs options upload_id) =
          map (\<lambda>p. ''bytes='' @ snd p)
            (enumerate 0 (calculatePartitionsRangeArray (opt_object_size options)
                         (opt_copy_part_size_bytes options)))"
    by (simp add: part_copy_inputs_sends [OF Some] split_beta comp_def)
  then show ?thesis by (simp only: map_enumerate_snd)
qed

lemma completion_manifests_Nil: "completion_manifests [] = []"
  by (simp add: completion_manifests_def map_filter_simps)

lemma completion_manifests_complete:
  "completion_manifests (CompleteMultipartUploadCommand params # rest) =
     multipart_upload.Parts (MultipartUpload params) # completion_manifests rest"
  by (simp add: completion_manifests_def map_filter_simps)

lemma completion_manifests_sent:
  "completion_manifests (CreateMultipartUploadCommand ci # map UploadPartCopyCommand inputs @ rest)
     = completion_manifests rest"
  by (induction inputs) (simp_all add: completion_manifests_def map_filter_simps)

lemma completion_manifests_abort:
  "completion_manifests (fst (abortMultipartCopy client b k u)) = []"
  by (simp add: abortMultipartCopy_def Let_def completion_manifests_def map_filter_simps
      split: sum.splits)

subsection \<open>The partition planner\<close>

lemma js_rem_nonneg: "0 \<le> a \<Longrightarrow> js_rem a b = a mod \<bar>b\<bar>"
  by (cases "a = 0") (simp_all add: js_rem_def)

lemma js_rem_neg: "a < 0 \<Longrightarrow> js_rem a b = - ((- a) mod \<bar>b\<bar>)"
  by (simp add: js_rem_def)

text \<open>The planner returns no range when the object is smaller than a positive part size
  and than the minimum: the loop does not run, and the remainder is below the minimum.\<close>

lemma planner_empty:
  assumes "0 < effective_part_size copy_part_size_bytes"
      and "object_size < effective_part_size copy_part_size_bytes"
      and "object_size < COPY_PART_SIZE_MINIMUM_BYTES"
  shows "calculatePartitionsRangeArray object_size copy_part_size_bytes = []"
proof -
  let ?c = "effective_part_size copy_part_size_bytes"
  have n: "math_floor_div object_size ?c \<le> 0"
  proof (cases "0 \<le> object_size")
    case True
    then show ?thesis using assms(2) by (simp add: math_floor_div_def div_pos_pos_trivial)
  next
    case False
    then have "object_size div ?c < 0"
      using assms(1) by (simp add: div_neg_pos_less0)
    then show ?thesis by (simp add: math_floor_div_def)
  qed
  have r: "js_rem object_size ?c < COPY_PART_SIZE_MINIMUM_BYTES"
  proof (cases "0 \<le> object_size")
    case True
    then show ?thesis using assms by (simp add: js_rem_nonneg)
  next
    case False
    then have "js_rem object_size ?c \<le> 0"
      using assms(1) by (simp add: js_rem_neg)
    then show ?thesis by (simp add: COPY_PART_SIZE_MINIMUM_BYTES_def)
  qed
  have loop: "partitions_loop ?c (math_floor_div object_size ?c) (js_rem object_size ?c) 0 [] = ([], 0)"
    using n by (simp add: partitions_loop.simps)
  show ?thesis
    using r by (simp add: calculatePartitionsRangeArray_def Let_def loop)
qed

lemma partitions_loop_result:
  "partitions_loop c n r i acc =
     (acc @ map (\<lambda>k. case slice_bounds c n r k of (a, b) \<Rightarrow> range_string a b) [i..n - 1], max i n)"
proof (induction c n r i acc rule: partitions_loop.induct)
  case (1 c n r i acc)
  show ?case
  proof (cases "i < n")
    case True
    then have up: "[i..n - 1] = i # [i + 1..n - 1]"
      by (simp add: upto_rec1)
    show ?thesis
      using True "1" [OF True refl refl]
      by (subst partitions_loop.simps) (simp add: up slice_bounds_def Let_def)
  next
    case False
    then show ?thesis
      by (subst partitions_loop.simps) simp
  qed
qed

lemma planner_as_bounds:
  "calculatePartitionsRangeArray object_size copy_part_size_bytes =
     map (\<lambda>(a, b). range_string a b) (planned_bounds object_size copy_part_size_bytes)"
  by (simp add: calculatePartitionsRangeArray_def planned_bounds_def Let_def partitions_loop_result)

lemma tiles_append:
  "tiles lo (xs @ ys) hi \<longleftrightarrow> (\<exists>mid. tiles lo xs (mid - 1) \<and> tiles mid ys hi)"
  by (induction lo xs hi rule: tiles.induct) auto

lemma tiles_le: "tiles lo ranges hi \<Longrightarrow> lo \<le> hi + 1"
  by (induction lo ranges hi rule: tiles.induct) auto

lemma tiles_union:
  "tiles lo ranges hi \<Longrightarrow> (\<Union>(a, b) \<in> set ranges. {a..b}) = {lo..hi}"
proof (induction lo ranges hi rule: tiles.induct)
  case (1 first_byte last_byte)
  then show ?case by simp
next
  case (2 first_byte a b ranges last_byte)
  then have rest: "(\<Union>(a, b) \<in> set ranges. {a..b}) = {b + 1..last_byte}"
    by simp
  have "tiles (b + 1) ranges last_byte"
    using "2.prems" by simp
  then have "b + 1 \<le> last_byte + 1"
    by (rule tiles_le)
  then show ?case
    using "2.prems" rest by auto
qed

lemma tiles_full_slices:
  assumes "0 < c" and "i \<le> m"
  shows "tiles (i * c) (map (\<lambda>k. (k * c, (k + 1) * c - 1)) [i..m - 1]) (m * c - 1)"
  using assms(2)
proof (induction "nat (m - i)" arbitrary: i)
  case 0
  then have "i = m" by simp
  then show ?case by simp
next
  case (Suc d)
  then have lt: "i < m" by linarith
  then have up: "[i..m - 1] = i # [i + 1..m - 1]"
    by (simp add: upto_rec1)
  have "d = nat (m - (i + 1))" using Suc.hyps(2) by linarith
  then have "tiles ((i + 1) * c) (map (\<lambda>k. (k * c, (k + 1) * c - 1)) [i + 1..m - 1]) (m * c - 1)"
    using Suc.hyps(1) lt by simp
  moreover have "i * c \<le> (i + 1) * c - 1"
    using assms(1) by (simp add: algebra_simps)
  ultimately show ?case
    by (simp add: up)
qed

lemma planner_tiles_object:
  assumes part: "COPY_PART_SIZE_MINIMUM_BYTES \<le> effective_part_size copy_part_size_bytes"
      and size: "COPY_PART_SIZE_MINIMUM_BYTES \<le> object_size"
  shows "tiles 0 (planned_bounds object_size copy_part_size_bytes) (object_size - 1)"
proof -
  let ?c = "effective_part_size copy_part_size_bytes"
  let ?n = "object_size div ?c"
  let ?r = "object_size mod ?c"
  have min: "0 < COPY_PART_SIZE_MINIMUM_BYTES"
    by (simp add: COPY_PART_SIZE_MINIMUM_BYTES_def)
  have c: "0 < ?c" and os: "0 \<le> object_size"
    using part size min by linarith+
  have rem: "js_rem object_size ?c = ?r"
    using c os by (simp add: js_rem_nonneg)
  have r: "0 \<le> ?r" and n: "0 \<le> ?n"
    using c os by (simp_all add: pos_imp_zdiv_nonneg_iff)
  have split: "object_size = ?n * ?c + ?r"
    by simp
  show ?thesis
  proof (cases "?r < COPY_PART_SIZE_MINIMUM_BYTES")
    case True
    have "?n \<noteq> 0"
    proof
      assume "?n = 0"
      then have "object_size = ?r" using split by simp
      then show False using True size by simp
    qed
    then have n1: "1 \<le> ?n" using n by linarith
    then have up: "[0..?n - 1] = [0..?n - 1 - 1] @ [?n - 1]"
      by (simp add: upto_rec2)
    have full: "map (slice_bounds ?c ?n ?r) [0..?n - 1 - 1] =
                map (\<lambda>k. (k * ?c, (k + 1) * ?c - 1)) [0..?n - 1 - 1]"
      by (rule map_cong) (auto simp: slice_bounds_def)
    have last: "slice_bounds ?c ?n ?r (?n - 1) = ((?n - 1) * ?c, object_size - 1)"
      using True split by (simp add: slice_bounds_def)
    have "tiles (0 * ?c) (map (\<lambda>k. (k * ?c, (k + 1) * ?c - 1)) [0..?n - 1 - 1]) ((?n - 1) * ?c - 1)"
      using c n1 by (intro tiles_full_slices) simp_all
    moreover have "(?n - 1) * ?c \<le> object_size - 1"
    proof -
      have "(?n - 1) * ?c = ?n * ?c - ?c" by (simp add: algebra_simps)
      then show ?thesis using split c r by linarith
    qed
    ultimately have "tiles 0 (map (slice_bounds ?c ?n ?r) [0..?n - 1]) (object_size - 1)"
      by (simp only: up map_append full tiles_append) (auto simp: last)
    then show ?thesis
      using True by (simp add: planned_bounds_def Let_def math_floor_div_def rem)
  next
    case False
    have full: "map (slice_bounds ?c ?n ?r) [0..?n - 1] =
                map (\<lambda>k. (k * ?c, (k + 1) * ?c - 1)) [0..?n - 1]"
      using False by (intro map_cong) (auto simp: slice_bounds_def)
    have "tiles (0 * ?c) (map (\<lambda>k. (k * ?c, (k + 1) * ?c - 1)) [0..?n - 1]) (?n * ?c - 1)"
      using c n by (intro tiles_full_slices) simp_all
    moreover have "tiles (?n * ?c) [(?n * ?c, ?n * ?c + ?r - 1)] (object_size - 1)"
    proof -
      have "?n * ?c \<le> ?n * ?c + ?r - 1"
        using False min by linarith
      moreover have "?n * ?c + ?r - 1 + 1 = object_size - 1 + 1"
        using split by linarith
      ultimately show ?thesis by simp
    qed
    ultimately have "tiles 0 (map (slice_bounds ?c ?n ?r) [0..?n - 1] @
                              [(?n * ?c, ?n * ?c + ?r - 1)]) (object_size - 1)"
      by (simp only: full tiles_append) auto
    then show ?thesis
      using False n by (simp add: planned_bounds_def Let_def math_floor_div_def rem max_def)
  qed
qed

text \<open>
  For an object and a part size of at least the minimum, the ranges the planner returns
  are not empty, contiguous and disjoint, and their union is \<open>[0, object_size - 1]\<close>.
\<close>

lemma planner_covers_object:
  assumes "COPY_PART_SIZE_MINIMUM_BYTES \<le> effective_part_size copy_part_size_bytes"
      and "COPY_PART_SIZE_MINIMUM_BYTES \<le> object_size"
  shows "calculatePartitionsRangeArray object_size copy_part_size_bytes =
           map (\<lambda>(a, b). range_string a b) (planned_bounds object_size copy_part_size_bytes)"
    and "planned_bounds object_size copy_part_size_bytes \<noteq> []"
    and "tiles 0 (planned_bounds object_size copy_part_size_bytes) (object_size - 1)"
    and "(\<Union>(a, b) \<in> set (planned_bounds object_size copy_part_size_bytes). {a..b}) =
           {0..object_size - 1}"
proof -
  have covered: "tiles 0 (planned_bounds object_size copy_part_size_bytes) (object_size - 1)"
    using assms by (rule planner_tiles_object)
  show "calculatePartitionsRangeArray object_size copy_part_size_bytes =
           map (\<lambda>(a, b). range_string a b) (planned_bounds object_size copy_part_size_bytes)"
    by (rule planner_as_bounds)
  show "tiles 0 (planned_bounds object_size copy_part_size_bytes) (object_size - 1)"
    by (rule covered)
  show "planned_bounds object_size copy_part_size_bytes \<noteq> []"
  proof
    assume "planned_bounds object_size copy_part_size_bytes = []"
    then have "object_size = 0" using covered by simp
    then show False using assms(2) by (simp add: COPY_PART_SIZE_MINIMUM_BYTES_def)
  qed
  show "(\<Union>(a, b) \<in> set (planned_bounds object_size copy_part_size_bytes). {a..b}) =
           {0..object_size - 1}"
    using covered by (rule tiles_union)
qed

text \<open>
  Claim C1, at an input where the code departs from it: an object of 5,242,879 bytes with
  the part size 5,242,880 (the minimum). The slice count is zero and the remainder,
  the whole object, is below the minimum, so the planner emits no range at all: the
  sequence is empty and covers none of \<open>[0, 5242878]\<close>. (For an object of at least
  the minimum the ranges do cover it, as shown above.)
\<close>

theorem planner_drops_object_below_minimum:
  "calculatePartitionsRangeArray 5242879 (Some 5242880) = []"
  by code_simp

text \<open>
  Claim C4, at the input it names: for an object of 3,000,000 bytes and the default part
  size the planner emits no range, where the claim has the one range \<open>0-2999999\<close>.
\<close>

theorem planner_small_object_default_part_size:
  "calculatePartitionsRangeArray 3000000 None = []"
  by code_simp

text \<open>
  Claim C5 as stated (two ranges, the second one \<open>50000000-119999999\<close>) is not what
  the planner returns for 120,000,000 bytes in parts of 50,000,000.
\<close>

theorem planner_120MB_not_two_ranges:
  "calculatePartitionsRangeArray 120000000 (Some 50000000) \<noteq>
     [''0-49999999'', ''50000000-119999999'']"
  by code_simp

text \<open>
  Claim C5, amended: for 120,000,000 bytes in parts of 50,000,000 the planner returns
  exactly three ranges, two full slices and the remainder of 20,000,000 bytes (at least
  the minimum) as a range of its own.
\<close>

theorem planner_120MB_three_ranges:
  "calculatePartitionsRangeArray 120000000 (Some 50000000) =
     [''0-49999999'', ''50000000-99999999'', ''100000000-119999999'']"
  by code_simp

text \<open>
  Claim C6: for 100,000,004 bytes in parts of 50,000,000 the remainder of 4 bytes is
  below the minimum, and the planner widens the last slice to take it: exactly the two
  ranges \<open>0-49999999\<close> and \<open>50000000-100000003\<close>, and no trailing range.
\<close>

theorem planner_remainder_absorbed:
  "calculatePartitionsRangeArray 100000004 (Some 50000000) =
     [''0-49999999'', ''50000000-100000003'']"
  by code_simp

subsection \<open>A small object\<close>

text \<open>
  Claim C10: for an object smaller than the part size in effect and than the minimum of
  5,242,880 bytes, the planner returns the empty list; after a successful initiate the
  run sends no part copy and goes on to the complete command with an empty manifest.
  (The commands after it are those of the abort path, sent only when the complete
  command is rejected.) The part size in effect is taken positive; a part size that an
  object size of zero or more is below is positive in any case.
\<close>

theorem small_object_completes_with_empty_manifest:
  fixes client :: "('e, 'p, 'r) s3_client"
  assumes positive: "0 < effective_part_size (opt_copy_part_size_bytes options)"
      and below_part: "opt_object_size options < effective_part_size (opt_copy_part_size_bytes options)"
      and below_minimum: "opt_object_size options < COPY_PART_SIZE_MINIMUM_BYTES"
      and init: "createMultipartUpload client (initiate_input options) = Inr upload_id"
  shows "calculatePartitionsRangeArray (opt_object_size options) (opt_copy_part_size_bytes options) = []
       \<and> fst (copyObjectMultipart client settle_order options) =
           CreateMultipartUploadCommand (initiate_input options)
           # CompleteMultipartUploadCommand (complete_input options upload_id [])
           # (case completeMultipartUpload client (complete_input options upload_id []) of
                Inr response \<Rightarrow> []
              | Inl err \<Rightarrow>
                  AbortMultipartUploadCommand (abort_input options upload_id)
                  # (if isl (abortMultipartUpload client (abort_input options upload_id)) then []
                     else [ListPartsCommand (abort_input options upload_id)]))"
proof -
  have plan: "calculatePartitionsRangeArray (opt_object_size options) (opt_copy_part_size_bytes options) = []"
    using positive below_part below_minimum by (rule planner_empty)
  have inputs: "part_copy_inputs options upload_id = []"
    by (simp add: part_copy_inputs_def plan map_filter_simps)
  have all_sent: "length (part_copy_inputs options upload_id) =
                    length (calculatePartitionsRangeArray (opt_object_size options)
                              (opt_copy_part_size_bytes options))"
    by (simp add: inputs plan)
  have ok: "list_all (copy_succeeds client) (part_copy_inputs options upload_id)"
    by (simp add: inputs)
  have manifest: "planned_manifest client options upload_id = []"
    by (simp add: planned_manifest_def inputs)
  show ?thesis
    by (simp add: plan fulfilled_path [OF init all_sent ok] manifest inputs abort_commands
        split: sum.splits)
qed

text \<open>
  The claim at an object of 4,000,000 bytes with a part size of 6,000,000 bytes, against
  a client that fulfils every command.
\<close>

theorem small_object_completes_with_empty_manifest_witness:
  "calculatePartitionsRangeArray 4000000 (Some 6000000) = []
   \<and> fst (copyObjectMultipart
          (scripted_client copied (Inr ()) (Inr \<lparr>list_parts_output.Parts = Some []\<rparr>) (Inr ''done''))
          [] (example_options 4000000 (Some 6000000))) =
     [CreateMultipartUploadCommand (initiate_input (example_options 4000000 (Some 6000000))),
      CompleteMultipartUploadCommand
        (complete_input (example_options 4000000 (Some 6000000)) ''upload-1'' [])]"
proof -
  let ?options = "example_options 4000000 (Some 6000000)"
  let ?client = "scripted_client copied (Inr ()) (Inr \<lparr>list_parts_output.Parts = Some []\<rparr>) (Inr ''done'')"
  have positive: "0 < effective_part_size (opt_copy_part_size_bytes ?options)"
    by (simp add: example_options_def effective_part_size_def DEFAULT_COPY_PART_SIZE_BYTES_def)
  have below_part: "opt_object_size ?options < effective_part_size (opt_copy_part_size_bytes ?options)"
    by (simp add: example_options_def effective_part_size_def DEFAULT_COPY_PART_SIZE_BYTES_def)
  have below_minimum: "opt_object_size ?options < COPY_PART_SIZE_MINIMUM_BYTES"
    by (simp add: example_options_def COPY_PART_SIZE_MINIMUM_BYTES_def)
  have init: "createMultipartUpload ?client (initiate_input ?options) = Inr ''upload-1''"
    by (simp add: scripted_client_def)
  have size: "opt_object_size ?options = 4000000"
    and part: "opt_copy_part_size_bytes ?options = Some 6000000"
    by (simp_all add: example_options_def)
  from small_object_completes_with_empty_manifest [OF positive below_part below_minimum init, of "[]"]
  show ?thesis
    by (simp add: size part scripted_client_def)
qed

subsection \<open>The manifest of the complete command\<close>

lemma manifest_when_sent:
  fixes client :: "('e, 'p, 'r) s3_client"
  assumes init: "createMultipartUpload client (initiate_input options) = Inr upload_id"
      and all_sent: "length (part_copy_inputs options upload_id) =
                       length (calculatePartitionsRangeArray (opt_object_size options)
                                 (opt_copy_part_size_bytes options))"
      and ok: "list_all (copy_succeeds client) (part_copy_inputs options upload_id)"
  shows "\<exists>manifest.
           completion_manifests (fst (copyObjectMultipart client settle_order options)) = [manifest] \<and>
           map completed_part.PartNumber manifest =
             [1..<Suc (length (calculatePartitionsRangeArray (opt_object_size options)
                                 (opt_copy_part_size_bytes options)))] \<and>
           map completed_part.ETag manifest =
             map (returned_etag client) (part_copy_inputs options upload_id) \<and>
           map upload_part_copy_input.PartNumber (part_copy_inputs options upload_id) =
             map completed_part.PartNumber manifest \<and>
           map CopySourceRange (part_copy_inputs options upload_id) =
             map (\<lambda>partitionRange. ''bytes='' @ partitionRange)
               (calculatePartitionsRangeArray (opt_object_size options)
                  (opt_copy_part_size_bytes options))"
proof -
  let ?m = "planned_manifest client options upload_id"
  have sent: "completion_manifests (fst (copyObjectMultipart client settle_order options)) = [?m]"
    by (simp add: fulfilled_path [OF init all_sent ok] completion_manifests_sent completion_manifests_abort
        completion_manifests_complete completion_manifests_Nil complete_input_def
        split: sum.splits)
  have nums: "map completed_part.PartNumber ?m =
             [1..<Suc (length (calculatePartitionsRangeArray (opt_object_size options)
                                 (opt_copy_part_size_bytes options)))]"
    by (simp only: planned_manifest_numbers all_sent)
  have sent_numbers: "map upload_part_copy_input.PartNumber (part_copy_inputs options upload_id) =
             map completed_part.PartNumber ?m"
    by (simp only: planned_manifest_numbers part_copy_inputs_numbers)
  show ?thesis
    using sent nums planned_manifest_etags sent_numbers part_copy_inputs_ranges [OF all_sent]
    by (intro exI [of _ ?m]) (simp del: upt_Suc)
qed

text \<open>
  Claim C7: when the initiate call and every part copy succeed, the complete command
  is sent once, with a manifest of one entry for each planned range; its part numbers
  are \<open>1..N\<close> in ascending order, the numbers the part copies were sent with, in the
  order of the ranges; and each entry carries the tag its part copy answered with.
  This holds for every order \<open>settle_order\<close> in which the part copies settle. (The
  part copies are those of the planned ranges unless \<open>copyPart\<close> throws on the source
  key; then none is sent, and the run rejects with the \<open>URIError\<close> before any complete
  command.)
\<close>

theorem manifest_in_part_number_order:
  fixes client :: "('e, 'p, 'r) s3_client"
  assumes init: "createMultipartUpload client (initiate_input options) = Inr upload_id"
      and ok: "list_all (copy_succeeds client) (part_copy_inputs options upload_id)"
  shows "if length (part_copy_inputs options upload_id) =
            length (calculatePartitionsRangeArray (opt_object_size options)
                      (opt_copy_part_size_bytes options))
         then \<exists>manifest.
           completion_manifests (fst (copyObjectMultipart client settle_order options)) = [manifest] \<and>
           map completed_part.PartNumber manifest =
             [1..<Suc (length (calculatePartitionsRangeArray (opt_object_size options)
                                 (opt_copy_part_size_bytes options)))] \<and>
           map completed_part.ETag manifest =
             map (returned_etag client) (part_copy_inputs options upload_id) \<and>
           map upload_part_copy_input.PartNumber (part_copy_inputs options upload_id) =
             map completed_part.PartNumber manifest \<and>
           map CopySourceRange (part_copy_inputs options upload_id) =
             map (\<lambda>partitionRange. ''bytes='' @ partitionRange)
               (calculatePartitionsRangeArray (opt_object_size options)
                  (opt_copy_part_size_bytes options))
         else copyObjectMultipart client settle_order options =
                ([CreateMultipartUploadCommand (initiate_input options)], Inl URIError)"
proof (cases "length (part_copy_inputs options upload_id) =
            length (calculatePartitionsRangeArray (opt_object_size options)
                      (opt_copy_part_size_bytes options))")
  case True
  show ?thesis
    by (subst if_P [OF True]) (rule manifest_when_sent [OF init True ok])
next
  case False
  show ?thesis
    by (subst if_not_P [OF False]) (rule key_throws_path [OF init False])
qed

text \<open>
  The claim at an object of 120,000,000 bytes (three ranges), whose part copies settle
  in the reverse order.
\<close>

theorem manifest_in_part_number_order_witness:
  "\<exists>manifest.
     completion_manifests
       (fst (copyObjectMultipart
               (scripted_client copied (Inr ()) (Inr \<lparr>list_parts_output.Parts = Some []\<rparr>) (Inr ''done''))
               [2, 1, 0] (example_options 120000000 None))) = [manifest] \<and>
     map completed_part.PartNumber manifest = [1, 2, 3] \<and>
     map completed_part.ETag manifest = [Some ''etag-1'', Some ''etag-2'', Some ''etag-3'']"
proof -
  let ?client = "scripted_client copied (Inr ()) (Inr \<lparr>list_parts_output.Parts = Some []\<rparr>) (Inr ''done'')"
  let ?options = "example_options 120000000 None"
  have init: "createMultipartUpload ?client (initiate_input ?options) = Inr ''upload-1''"
    by (simp add: scripted_client_def)
  have all_sent: "length (part_copy_inputs ?options ''upload-1'') =
                    length (calculatePartitionsRangeArray (opt_object_size ?options)
                              (opt_copy_part_size_bytes ?options))"
    by code_simp
  have ok: "list_all (copy_succeeds ?client) (part_copy_inputs ?options ''upload-1'')"
    by (simp add: list_all_iff copy_succeeds_def scripted_client_def copied_def)
  have ranges: "length (calculatePartitionsRangeArray (opt_object_size ?options)
                  (opt_copy_part_size_bytes ?options)) = 3"
    by code_simp
  have etags: "map (returned_etag ?client) (part_copy_inputs ?options ''upload-1'') =
                 [Some ''etag-1'', Some ''etag-2'', Some ''etag-3'']"
    by code_simp
  have numbers: "[1..<Suc 3] = [1, 2, 3]"
    by code_simp
  from manifest_in_part_number_order [OF init ok, of "[2, 1, 0]", unfolded if_P [OF all_sent]]
  obtain manifest where
    sent: "completion_manifests (fst (copyObjectMultipart ?client [2, 1, 0] ?options)) = [manifest]"
    and nums: "map completed_part.PartNumber manifest =
             [1..<Suc (length (calculatePartitionsRangeArray (opt_object_size ?options)
                                 (opt_copy_part_size_bytes ?options)))]"
    and tags: "map completed_part.ETag manifest =
             map (returned_etag ?client) (part_copy_inputs ?options ''upload-1'')"
    by (elim exE conjE)
  have "map completed_part.PartNumber manifest = [1, 2, 3]"
    using nums by (simp only: ranges numbers)
  moreover have "map completed_part.ETag manifest = [Some ''etag-1'', Some ''etag-2'', Some ''etag-3'']"
    using tags by (simp only: etags)
  ultimately show ?thesis
    using sent by (intro exI [of _ manifest] conjI)
qed

subsection \<open>A failed part copy\<close>

text \<open>
  Claim C8: when a part copy is rejected, the run sends the abort command after the part
  copies and, once the abort is acknowledged, the list-parts command. It never fulfils.
  With an empty listing it rejects with the error \<open>multipart copy aborted\<close>; with a
  listing that is not empty it rejects with the error
  \<open>Abort procedure passed but copy parts were not removed\<close>, whose details are the
  listing. A rejection of the abort or of the list-parts command is passed on.
\<close>

theorem part_copy_failure_aborts_and_verifies:
  fixes client :: "('e, 'p, 'r) s3_client"
  assumes init: "createMultipartUpload client (initiate_input options) = Inr upload_id"
      and fail: "list_ex (copy_rejected client) (part_copy_inputs options upload_id)"
  shows "fst (copyObjectMultipart client settle_order options) =
           CreateMultipartUploadCommand (initiate_input options)
           # map UploadPartCopyCommand (part_copy_inputs options upload_id)
           @ AbortMultipartUploadCommand (abort_input options upload_id)
           # (if isl (abortMultipartUpload client (abort_input options upload_id)) then []
              else [ListPartsCommand (abort_input options upload_id)])
       \<and> snd (copyObjectMultipart client settle_order options) =
           (case abortMultipartUpload client (abort_input options upload_id) of
              Inl err \<Rightarrow> Inl (Rejection err)
            | Inr ack \<Rightarrow>
                (case listParts client (abort_input options upload_id) of
                   Inl err \<Rightarrow> Inl (Rejection err)
                 | Inr listing \<Rightarrow>
                     (case list_parts_output.Parts listing of
                        None \<Rightarrow> Inl TypeError
                      | Some [] \<Rightarrow>
                          Inl (Error ''multipart copy aborted''
                                 (ParamsDetails (abort_input options upload_id)))
                      | Some (part # parts) \<Rightarrow>
                          Inl (Error ''Abort procedure passed but copy parts were not removed''
                                 (ListingDetails listing)))))
       \<and> isl (snd (copyObjectMultipart client settle_order options))"
  by (simp only: rejected_path [OF init fail] fst_conv snd_conv abort_commands abort_outcome
      abort_rejects [of client "opt_destination_bucket options" "opt_copied_object_name options" upload_id,
        unfolded abort_outcome] simp_thms)

text \<open>
  The claim at a run whose second part copy is rejected, once with an empty listing and
  once with a listing of two parts.
\<close>

theorem part_copy_failure_aborts_and_verifies_witness:
  "snd (copyObjectMultipart
          (scripted_client (second_part_rejected ''AccessDenied'') (Inr ())
             (Inr \<lparr>list_parts_output.Parts = Some []\<rparr>) (Inr ''done''))
          [1, 0, 2] (example_options 120000000 None)) =
     Inl (Error ''multipart copy aborted''
            (ParamsDetails (abort_input (example_options 120000000 None) ''upload-1'')))
   \<and> snd (copyObjectMultipart
          (scripted_client (second_part_rejected ''AccessDenied'') (Inr ())
             (Inr \<lparr>list_parts_output.Parts = Some [1, 3]\<rparr>) (Inr ''done''))
          [1, 0, 2] (example_options 120000000 None)) =
     Inl (Error ''Abort procedure passed but copy parts were not removed''
            (ListingDetails \<lparr>list_parts_output.Parts = Some [1, 3]\<rparr>))
   \<and> fst (copyObjectMultipart
          (scripted_client (second_part_rejected ''AccessDenied'') (Inr ())
             (Inr \<lparr>list_parts_output.Parts = Some []\<rparr>) (Inr ''done''))
          [1, 0, 2] (example_options 120000000 None)) =
     CreateMultipartUploadCommand (initiate_input (example_options 120000000 None))
     # map UploadPartCopyCommand (part_copy_inputs (example_options 120000000 None) ''upload-1'')
     @ [AbortMultipartUploadCommand (abort_input (example_options 120000000 None) ''upload-1''),
        ListPartsCommand (abort_input (example_options 120000000 None) ''upload-1'')]"
proof -
  let ?options = "example_options 120000000 None"
  have init: "createMultipartUpload (scripted_client c a l f) (initiate_input ?options) = Inr ''upload-1''"
    for c a l f
    by (simp add: scripted_client_def)
  have fail: "list_ex (copy_rejected (scripted_client (second_part_rejected ''AccessDenied'') a l f))
                (part_copy_inputs ?options ''upload-1'')" for a l f
    by code_simp
  show ?thesis
    using part_copy_failure_aborts_and_verifies [OF init fail, of "Inr ()" "Inr \<lparr>list_parts_output.Parts = Some []\<rparr>" "Inr ''done''" "[1, 0, 2]"]
      part_copy_failure_aborts_and_verifies [OF init fail, of "Inr ()" "Inr \<lparr>list_parts_output.Parts = Some [1, 3]\<rparr>" "Inr ''done''" "[1, 0, 2]"]
    by (simp add: scripted_client_def)
qed

text \<open>
  Claim C9 as stated does not hold: two runs whose part copies fail differently (the
  join rejects with \<open>AccessDenied\<close> in one and with \<open>SlowDown\<close> in the other) return
  the same error, which holds the parameters of the abort and nothing of the failure.
\<close>

theorem part_copy_failure_not_in_abort_error:
  "Promise_all [1, 0, 2]
     (map (uploadPartCopy
             (scripted_client (second_part_rejected ''AccessDenied'') (Inr ())
                (Inr \<lparr>list_parts_output.Parts = Some []\<rparr>) (Inr ''done'')))
        (part_copy_inputs (example_options 120000000 None) ''upload-1'')) = Inl ''AccessDenied''
   \<and> Promise_all [1, 0, 2]
     (map (uploadPartCopy
             (scripted_client (second_part_rejected ''SlowDown'') (Inr ())
                (Inr \<lparr>list_parts_output.Parts = Some []\<rparr>) (Inr ''done'')))
        (part_copy_inputs (example_options 120000000 None) ''upload-1'')) = Inl ''SlowDown''
   \<and> snd (copyObjectMultipart
          (scripted_client (second_part_rejected ''AccessDenied'') (Inr ())
             (Inr \<lparr>list_parts_output.Parts = Some []\<rparr>) (Inr ''done''))
          [1, 0, 2] (example_options 120000000 None)) =
     Inl (Error ''multipart copy aborted''
            (ParamsDetails \<lparr>Bucket = ''destination-bucket'', Key = ''copy.mp4'',
                             UploadId = ''upload-1''\<rparr>))
   \<and> snd (copyObjectMultipart
          (scripted_client (second_part_rejected ''SlowDown'') (Inr ())
             (Inr \<lparr>list_parts_output.Parts = Some []\<rparr>) (Inr ''done''))
          [1, 0, 2] (example_options 120000000 None)) =
     Inl (Error ''multipart copy aborted''
            (ParamsDetails \<lparr>Bucket = ''destination-bucket'', Key = ''copy.mp4'',
                             UploadId = ''upload-1''\<rparr>))"
  by code_simp

text \<open>
  Claim C9, amended: when a part copy fails, the error returned to the caller is the one
  the abort path builds from the abort and list-parts responses; the handler does not
  read what it caught, so two runs that differ only in how their part copies failed (and
  in the order they settled) return the same error.
\<close>

theorem abort_error_independent_of_part_failure:
  fixes client client' :: "('e, 'p, 'r) s3_client"
  assumes init: "createMultipartUpload client (initiate_input options) = Inr upload_id"
      and init': "createMultipartUpload client' (initiate_input options) = Inr upload_id"
      and fail: "list_ex (copy_rejected client) (part_copy_inputs options upload_id)"
      and fail': "list_ex (copy_rejected client') (part_copy_inputs options upload_id)"
      and abort: "abortMultipartUpload client (abort_input options upload_id) =
                  abortMultipartUpload client' (abort_input options upload_id)"
      and listing: "listParts client (abort_input options upload_id) =
                    listParts client' (abort_input options upload_id)"
  shows "snd (copyObjectMultipart client settle_order options) =
         snd (copyObjectMultipart client' settle_order' options)
       \<and> snd (copyObjectMultipart client settle_order options) =
         snd (abortMultipartCopy client (opt_destination_bucket options)
                (opt_copied_object_name options) upload_id)"
  by (simp only: rejected_path [OF init fail] rejected_path [OF init' fail'] snd_conv
      abort_outcome abort listing simp_thms)

text \<open>
  The amended claim at two clients that reject the second part copy with different
  errors.
\<close>

theorem abort_error_independent_of_part_failure_witness:
  "snd (copyObjectMultipart
          (scripted_client (second_part_rejected ''AccessDenied'') (Inr ())
             (Inr \<lparr>list_parts_output.Parts = Some [2]\<rparr>) (Inr ''done''))
          [1, 0, 2] (example_options 120000000 None)) =
   snd (copyObjectMultipart
          (scripted_client (second_part_rejected ''SlowDown'') (Inr ())
             (Inr \<lparr>list_parts_output.Parts = Some [2]\<rparr>) (Inr ''done''))
          [2, 1, 0] (example_options 120000000 None))"
proof -
  let ?options = "example_options 120000000 None"
  let ?clientA = "scripted_client (second_part_rejected ''AccessDenied'') (Inr ())
             (Inr \<lparr>list_parts_output.Parts = Some [2]\<rparr>) (Inr ''done'')"
  let ?clientB = "scripted_client (second_part_rejected ''SlowDown'') (Inr ())
             (Inr \<lparr>list_parts_output.Parts = Some [2]\<rparr>) (Inr ''done'')"
  have initA: "createMultipartUpload ?clientA (initiate_input ?options) = Inr ''upload-1''"
    by (simp add: scripted_client_def)
  have initB: "createMultipartUpload ?clientB (initiate_input ?options) = Inr ''upload-1''"
    by (simp add: scripted_client_def)
  have failA: "list_ex (copy_rejected ?clientA) (part_copy_inputs ?options ''upload-1'')"
    by code_simp
  have failB: "list_ex (copy_rejected ?clientB) (part_copy_inputs ?options ''upload-1'')"
    by code_simp
  have abort: "abortMultipartUpload ?clientA (abort_input ?options ''upload-1'') =
               abortMultipartUpload ?clientB (abort_input ?options ''upload-1'')"
    by (simp add: scripted_client_def)
  have listing: "listParts ?clientA (abort_input ?options ''upload-1'') =
                 listParts ?clientB (abort_input ?options ''upload-1'')"
    by (simp add: scripted_client_def)
  from abort_error_independent_of_part_failure [OF initA initB failA failB abort listing,
      of "[1, 0, 2]" "[2, 1, 0]"]
  show ?thesis by (rule conjunct1)
qed

subsection \<open>A failed complete call\<close>

text \<open>
  Claim C2 as stated does not hold: with every part copy fulfilled and the complete
  command rejected with \<open>InternalError\<close>, the run goes on to send the abort and the
  list-parts commands, and it rejects with the abort error, not with the rejection of
  the complete command.
\<close>

theorem finalize_failure_is_followed_by_abort:
  "fst (copyObjectMultipart
          (scripted_client copied (Inr ()) (Inr \<lparr>list_parts_output.Parts = Some []\<rparr>)
             (Inl ''InternalError''))
          [] (example_options 120000000 None)) =
     CreateMultipartUploadCommand (initiate_input (example_options 120000000 None))
     # map UploadPartCopyCommand (part_copy_inputs (example_options 120000000 None) ''upload-1'')
     @ [CompleteMultipartUploadCommand
          (complete_input (example_options 120000000 None) ''upload-1''
             [\<lparr>completed_part.ETag = Some ''etag-1'', completed_part.PartNumber = 1\<rparr>,
              \<lparr>completed_part.ETag = Some ''etag-2'', completed_part.PartNumber = 2\<rparr>,
              \<lparr>completed_part.ETag = Some ''etag-3'', completed_part.PartNumber = 3\<rparr>]),
        AbortMultipartUploadCommand (abort_input (example_options 120000000 None) ''upload-1''),
        ListPartsCommand (abort_input (example_options 120000000 None) ''upload-1'')]
   \<and> snd (copyObjectMultipart
          (scripted_client copied (Inr ()) (Inr \<lparr>list_parts_output.Parts = Some []\<rparr>)
             (Inl ''InternalError''))
          [] (example_options 120000000 None)) =
     Inl (Error ''multipart copy aborted''
            (ParamsDetails (abort_input (example_options 120000000 None) ''upload-1'')))
   \<and> snd (copyObjectMultipart
          (scripted_client copied (Inr ()) (Inr \<lparr>list_parts_output.Parts = Some []\<rparr>)
             (Inl ''InternalError''))
          [] (example_options 120000000 None)) \<noteq> Inl (Rejection ''InternalError'')"
  by code_simp

lemma finalize_failure_when_sent:
  fixes client :: "('e, 'p, 'r) s3_client"
  assumes init: "createMultipartUpload client (initiate_input options) = Inr upload_id"
      and all_sent: "length (part_copy_inputs options upload_id) =
                       length (calculatePartitionsRangeArray (opt_object_size options)
                                 (opt_copy_part_size_bytes options))"
      and ok: "list_all (copy_succeeds client) (part_copy_inputs options upload_id)"
      and finalize: "completeMultipartUpload client
                       (complete_input options upload_id (planned_manifest client options upload_id))
                     = Inl err"
  shows "fst (copyObjectMultipart client settle_order options) =
           CreateMultipartUploadCommand (initiate_input options)
           # map UploadPartCopyCommand (part_copy_inputs options upload_id)
           @ CompleteMultipartUploadCommand
               (complete_input options upload_id (planned_manifest client options upload_id))
           # AbortMultipartUploadCommand (abort_input options upload_id)
           # (if isl (abortMultipartUpload client (abort_input options upload_id)) then []
              else [ListPartsCommand (abort_input options upload_id)])
       \<and> snd (copyObjectMultipart client settle_order options) =
           (case abortMultipartUpload client (abort_input options upload_id) of
              Inl err \<Rightarrow> Inl (Rejection err)
            | Inr ack \<Rightarrow>
                (case listParts client (abort_input options upload_id) of
                   Inl err \<Rightarrow> Inl (Rejection err)
                 | Inr listing \<Rightarrow>
                     (case list_parts_output.Parts listing of
                        None \<Rightarrow> Inl TypeError
                      | Some [] \<Rightarrow>
                          Inl (Error ''multipart copy aborted''
                                 (ParamsDetails (abort_input options upload_id)))
                      | Some (part # parts) \<Rightarrow>
                          Inl (Error ''Abort procedure passed but copy parts were not removed''
                                 (ListingDetails listing)))))"
  by (simp only: fulfilled_path [OF init all_sent ok] finalize sum.case fst_conv snd_conv
      abort_commands abort_outcome simp_thms)

text \<open>
  Claim C2, amended: when every part copy succeeds and the complete command is
  rejected, the \<open>catch\<close> that follows the \<open>then\<close> takes the rejection: the run sends
  the abort command and, once it is acknowledged, the list-parts command, and its outcome
  is the one of the abort path; the rejection of the complete command is not returned.
  (Where \<open>copyPart\<close> throws on the source key, no part copy and no complete command
  is sent, and the run rejects with the \<open>URIError\<close>.)
\<close>

theorem finalize_failure_runs_abort_path:
  fixes client :: "('e, 'p, 'r) s3_client"
  assumes init: "createMultipartUpload client (initiate_input options) = Inr upload_id"
      and ok: "list_all (copy_succeeds client) (part_copy_inputs options upload_id)"
      and finalize: "completeMultipartUpload client
                       (complete_input options upload_id (planned_manifest client options upload_id))
                     = Inl err"
  shows "if length (part_copy_inputs options upload_id) =
            length (calculatePartitionsRangeArray (opt_object_size options)
                      (opt_copy_part_size_bytes options))
         then
           fst (copyObjectMultipart client settle_order options) =
             CreateMultipartUploadCommand (initiate_input options)
             # map UploadPartCopyCommand (part_copy_inputs options upload_id)
             @ CompleteMultipartUploadCommand
                 (complete_input options upload_id (planned_manifest client options upload_id))
             # AbortMultipartUploadCommand (abort_input options upload_id)
             # (if isl (abortMultipartUpload client (abort_input options upload_id)) then []
                else [ListPartsCommand (abort_input options upload_id)])
         \<and> snd (copyObjectMultipart client settle_order options) =
             (case abortMultipartUpload client (abort_input options upload_id) of
                Inl err \<Rightarrow> Inl (Rejection err)
              | Inr ack \<Rightarrow>
                  (case listParts client (abort_input options upload_id) of
                     Inl err \<Rightarrow> Inl (Rejection err)
                   | Inr listing \<Rightarrow>
                       (case list_parts_output.Parts listing of
                          None \<Rightarrow> Inl TypeError
                        | Some [] \<Rightarrow>
                            Inl (Error ''multipart copy aborted''
                                   (ParamsDetails (abort_input options upload_id)))
                        | Some (part # parts) \<Rightarrow>
                            Inl (Error ''Abort procedure passed but copy parts were not removed''
                                   (ListingDetails listing)))))
         else copyObjectMultipart client settle_order options =
                ([CreateMultipartUploadCommand (initiate_input options)], Inl URIError)"
proof (cases "length (part_copy_inputs options upload_id) =
            length (calculatePartitionsRangeArray (opt_object_size options)
                      (opt_copy_part_size_bytes options))")
  case True
  show ?thesis
    by (subst if_P [OF True]) (rule finalize_failure_when_sent [OF init True ok finalize])
next
  case False
  show ?thesis
    by (subst if_not_P [OF False]) (rule key_throws_path [OF init False])
qed

text \<open>
  The amended claim at a client that rejects the complete command and still lists three
  parts after the abort.
\<close>

theorem finalize_failure_runs_abort_path_witness:
  "snd (copyObjectMultipart
          (scripted_client copied (Inr ()) (Inr \<lparr>list_parts_output.Parts = Some [1, 2, 3]\<rparr>)
             (Inl ''InternalError''))
          [0, 1, 2] (example_options 120000000 None)) =
     Inl (Error ''Abort procedure passed but copy parts were not removed''
            (ListingDetails \<lparr>list_parts_output.Parts = Some [1, 2, 3]\<rparr>))"
proof -
  let ?options = "example_options 120000000 None"
  let ?client = "scripted_client copied (Inr ()) (Inr \<lparr>list_parts_output.Parts = Some [1, 2, 3]\<rparr>)
             (Inl ''InternalError'')"
  have init: "createMultipartUpload ?client (initiate_input ?options) = Inr ''upload-1''"
    by (simp add: scripted_client_def)
  have all_sent: "length (part_copy_inputs ?options ''upload-1'') =
                    length (calculatePartitionsRangeArray (opt_object_size ?options)
                              (opt_copy_part_size_bytes ?options))"
    by code_simp
  have ok: "list_all (copy_succeeds ?client) (part_copy_inputs ?options ''upload-1'')"
    by (simp add: list_all_iff copy_succeeds_def scripted_client_def copied_def)
  have finalize: "completeMultipartUpload ?client
                    (complete_input ?options ''upload-1'' (planned_manifest ?client ?options ''upload-1''))
                  = Inl ''InternalError''"
    by (simp add: scripted_client_def)
  from finalize_failure_runs_abort_path [OF init ok finalize, of "[0, 1, 2]",
      unfolded if_P [OF all_sent]]
  show ?thesis
    by (simp add: scripted_client_def)
qed

subsection \<open>No validation of the sizes\<close>




end
